theory Spec2Isabelle
  imports Main
begin

section \<open>JavaScript values\<close>

text \<open>
  The branch descriptor of \<^verbatim>\<open>lib/utils.js\<close> is a plain JavaScript object whose
  properties hold strings, booleans, numbers or \<^verbatim>\<open>undefined\<close>. \<open>JNum\<close> carries the
  non-negative integers (ticket numbers as the command line hands them over); no other
  number reaches the code modelled here.
\<close>

datatype jsval = JUndef | JBool bool | JNum nat | JStr string

fun truthy :: "jsval \<Rightarrow> bool" where
  "truthy JUndef = False"
| "truthy (JBool b) = b"
| "truthy (JNum n) = (0 < n)"
| "truthy (JStr s) = (0 < length s)"

definition js_and :: "jsval \<Rightarrow> jsval \<Rightarrow> jsval" where
  \<comment> \<open>\<^verbatim>\<open>a && b\<close>\<close>
  "js_and a b = (if truthy a then b else a)"

definition js_or :: "jsval \<Rightarrow> jsval \<Rightarrow> jsval" where
  \<comment> \<open>\<^verbatim>\<open>a || b\<close>\<close>
  "js_or a b = (if truthy a then a else b)"

definition js_not :: "jsval \<Rightarrow> jsval" where
  \<comment> \<open>\<^verbatim>\<open>!a\<close>\<close>
  "js_not a = JBool (if truthy a then False else True)"

fun decimal :: "nat \<Rightarrow> string" where
  "decimal n =
     (if n < 10 then [''0123456789'' ! n]
      else decimal (n div 10) @ [''0123456789'' ! (n mod 10)])"

declare decimal.simps [simp del]

fun to_string :: "jsval \<Rightarrow> string" where
  \<comment> \<open>string conversion, as in \<^verbatim>\<open>'' + v\<close> and in template literals\<close>
  "to_string JUndef = ''undefined''"
| "to_string (JBool b) = (if b then ''true'' else ''false'')"
| "to_string (JNum n) = decimal n"
| "to_string (JStr s) = s"

section \<open>String and array helpers\<close>

fun js_split :: "char \<Rightarrow> string \<Rightarrow> string list" where
  \<comment> \<open>\<^verbatim>\<open>s.split(sep)\<close> for a one-character separator; the empty string gives one empty fragment\<close>
  "js_split sep [] = [[]]"
| "js_split sep (c # cs) =
     (if c = sep then [] # js_split sep cs
      else (case js_split sep cs of
              [] \<Rightarrow> [[c]]
            | f # fs \<Rightarrow> (c # f) # fs))"

fun join_elem :: "jsval \<Rightarrow> string" where
  \<comment> \<open>\<^verbatim>\<open>Array.prototype.join\<close> writes \<^verbatim>\<open>undefined\<close> as the empty string\<close>
  "join_elem JUndef = []"
| "join_elem v = to_string v"

fun js_join :: "string \<Rightarrow> jsval list \<Rightarrow> string" where
  "js_join sep [] = []"
| "js_join sep [x] = join_elem x"
| "js_join sep (x # y # r) = join_elem x @ sep @ js_join sep (y # r)"

definition startsWith :: "string \<Rightarrow> string \<Rightarrow> bool" where
  \<comment> \<open>\<^verbatim>\<open>s.startsWith(p)\<close>\<close>
  "startsWith s p = (take (length p) s = p)"

fun js_replace :: "string \<Rightarrow> string \<Rightarrow> string \<Rightarrow> string" where
  \<comment> \<open>\<^verbatim>\<open>_.replace(s, pat, rep)\<close> with a string pattern: the first occurrence only, wherever it is\<close>
  "js_replace [] pat rep = (if pat = [] then rep else [])"
| "js_replace (c # cs) pat rep =
     (if startsWith (c # cs) pat then rep @ drop (length pat) (c # cs)
      else c # js_replace cs pat rep)"

fun lodash_first :: "string list \<Rightarrow> jsval" where
  \<comment> \<open>\<^verbatim>\<open>_.first\<close>: \<^verbatim>\<open>undefined\<close> on an empty array\<close>
  "lodash_first [] = JUndef"
| "lodash_first (x # xs) = JStr x"

fun lodash_last :: "string list \<Rightarrow> jsval" where
  \<comment> \<open>\<^verbatim>\<open>_.last\<close>: \<^verbatim>\<open>undefined\<close> on an empty array\<close>
  "lodash_last [] = JUndef"
| "lodash_last (x # xs) = JStr (last (x # xs))"

fun index :: "string list \<Rightarrow> nat \<Rightarrow> jsval" where
  \<comment> \<open>\<^verbatim>\<open>xs[i]\<close>: \<^verbatim>\<open>undefined\<close> out of range\<close>
  "index [] i = JUndef"
| "index (x # xs) 0 = JStr x"
| "index (x # xs) (Suc i) = index xs i"

fun isEmpty :: "jsval \<Rightarrow> bool" where
  \<comment> \<open>\<^verbatim>\<open>_.isEmpty\<close>: a string is empty when its length is 0; every value that is no
      collection (a boolean, a number, \<^verbatim>\<open>undefined\<close>) is empty\<close>
  "isEmpty (JStr s) = (length s = 0)"
| "isEmpty v = True"

section \<open>Regular expressions\<close>

text \<open>
  The fragment of regular expressions the two files use: single characters and
  character classes, \<^verbatim>\<open>+\<close> on one of them, concatenation, an optional group, and the
  anchors \<^verbatim>\<open>^\<close> and \<^verbatim>\<open>$\<close> at the two ends. \<open>rmatch r s\<close> lists what is left of \<open>s\<close>
  after each way \<open>r\<close> can match a prefix of it, the greedy choice first.
\<close>

datatype atom = Lit char | Class "char list"

fun accepts :: "atom \<Rightarrow> char \<Rightarrow> bool" where
  "accepts (Lit a) c = (c = a)"
| "accepts (Class cs) c = (c \<in> set cs)"

datatype rx = Atom atom | Plus atom | Seq rx rx | Opt rx

fun plus_rest :: "atom \<Rightarrow> string \<Rightarrow> string list" where
  "plus_rest a [] = []"
| "plus_rest a (c # cs) = (if accepts a c then plus_rest a cs @ [cs] else [])"

fun rmatch :: "rx \<Rightarrow> string \<Rightarrow> string list" where
  "rmatch (Atom a) s = (case s of [] \<Rightarrow> [] | c # cs \<Rightarrow> (if accepts a c then [cs] else []))"
| "rmatch (Plus a) s = plus_rest a s"
| "rmatch (Seq r1 r2) s = concat (map (rmatch r2) (rmatch r1 s))"
| "rmatch (Opt r) s = rmatch r s @ [s]"

record regex =
  bol :: bool
  body :: rx
  eol :: bool

definition match_here :: "regex \<Rightarrow> string \<Rightarrow> bool" where
  "match_here re s =
     (if eol re then [] \<in> set (rmatch (body re) s) else 0 < length (rmatch (body re) s))"

fun match_anywhere :: "regex \<Rightarrow> string \<Rightarrow> bool" where
  "match_anywhere re [] = match_here re []"
| "match_anywhere re (c # cs) = (if match_here re (c # cs) then True else match_anywhere re cs)"

definition regex_test :: "regex \<Rightarrow> string \<Rightarrow> bool" where
  \<comment> \<open>\<^verbatim>\<open>re.test(s)\<close>\<close>
  "regex_test re s = (if bol re then match_here re s else match_anywhere re s)"

definition digit_class :: atom where
  \<comment> \<open>\<^verbatim>\<open>[0-9]\<close>\<close>
  "digit_class = Class ''0123456789''"

definition numeric_re :: regex where
  \<comment> \<open>\<^verbatim>\<open>/^[0-9]+$/\<close>\<close>
  "numeric_re = \<lparr>bol = True, body = Plus digit_class, eol = True\<rparr>"

section \<open>Errors and the shell\<close>

datatype error =
    Error string  \<comment> \<open>\<^verbatim>\<open>throw Error(message)\<close>\<close>
  | TypeError  \<comment> \<open>a method called on \<^verbatim>\<open>undefined\<close> or on a value that has no such method\<close>
  | ExecError string  \<comment> \<open>\<^verbatim>\<open>execSync\<close> throws: the command could not run or exited with a failure\<close>

text \<open>
  \<^verbatim>\<open>execSync\<close> is the only door to git. The shell is a parameter: given a command line
  it answers with the command's output or with the error \<^verbatim>\<open>execSync\<close> throws. Every
  function that runs commands returns the commands it ran, in order, beside its outcome.
\<close>

type_synonym shell = "string \<Rightarrow> error + string"

type_synonym 'a run = "string list \<times> (error + 'a)"

definition execute :: "shell \<Rightarrow> string \<Rightarrow> string run" where
  "execute sh command = ([command], sh command)"

definition red :: "string \<Rightarrow> string" where
  \<comment> \<open>\<^verbatim>\<open>message.red\<close> of the colors package: the text between the ANSI codes for red and for
      the default colour\<close>
  "red s = CHR 0x1B # ''[31m'' @ s @ CHR 0x1B # ''[39m''"

section \<open>lib/utils.js: the branch-name codec\<close>

record descriptor =
  version :: jsval
  feature :: jsval
  ticketNumber :: jsval
  description :: jsval
  isBuildable :: jsval
  author :: jsval
  baseBranch :: jsval

text \<open>A property an object does not have reads as \<^verbatim>\<open>undefined\<close>: \<open>parseBranchName\<close>
  builds an object without \<open>author\<close> and \<open>baseBranch\<close>.\<close>

definition BUILDABLE_BRANCH_TAG :: string where
  "BUILDABLE_BRANCH_TAG = ''build#''"

definition getCurrentBranch :: "shell \<Rightarrow> jsval run" where
  "getCurrentBranch sh =
     (case execute sh ''git branch 2> /dev/null'' of
        (cmds, Inl e) \<Rightarrow> (cmds, Inl e)
      | (cmds, Inr allBranches) \<Rightarrow>
          (cmds, Inr (lodash_first
             (map (\<lambda>branch. js_replace branch ''* '' [])
                (filter (\<lambda>branch. startsWith branch ''*'')
                   (js_split (CHR 0x0A) allBranches))))))"

definition parseFragments :: "string list \<Rightarrow> descriptor" where
  \<comment> \<open>the body of \<^verbatim>\<open>parseBranchName\<close> once the name is split\<close>
  "parseFragments branchFragments =
     (let featureFragment =
            (if 1 < length branchFragments \<and> \<not> regex_test numeric_re (branchFragments ! 1)
             then branchFragments ! 1 else []);
          isBuildable = startsWith featureFragment ''build#'';
          feature =
            (if 0 < length featureFragment
             then js_replace featureFragment BUILDABLE_BRANCH_TAG [] else []);
          ticketNumber = lodash_first (filter (regex_test numeric_re) branchFragments)
      in \<lparr>version = index branchFragments 0,
          feature = JStr feature,
          ticketNumber = ticketNumber,
          description =
            (if 1 < length branchFragments then lodash_last branchFragments else JStr []),
          isBuildable = JBool isBuildable,
          author = JUndef,
          baseBranch = JUndef\<rparr>)"

definition split_name :: "jsval \<Rightarrow> error + string list" where
  \<comment> \<open>\<^verbatim>\<open>v.split('_')\<close>: only a string has the method\<close>
  "split_name v = (case v of JStr s \<Rightarrow> Inr (js_split (CHR ''_'') s) | _ \<Rightarrow> Inl TypeError)"

definition parseBranchName :: "shell \<Rightarrow> jsval \<Rightarrow> descriptor run" where
  "parseBranchName sh branchName =
     (case (if truthy branchName then ([], Inr branchName) else getCurrentBranch sh) of
        (cmds, Inl e) \<Rightarrow> (cmds, Inl e)
      | (cmds, Inr v) \<Rightarrow>
          (case split_name v of
             Inl e \<Rightarrow> (cmds, Inl e)
           | Inr branchFragments \<Rightarrow> (cmds, Inr (parseFragments branchFragments))))"

definition buildBranchName :: "descriptor \<Rightarrow> string" where
  "buildBranchName parsedBranch =
     (let versionFragment = version parsedBranch;
          featureFragment =
            JStr ((if truthy (isBuildable parsedBranch) then BUILDABLE_BRANCH_TAG else [])
                  @ to_string (js_or (feature parsedBranch) (JStr [])));
          ticketNumberFragment = JStr ([] @ to_string (js_or (ticketNumber parsedBranch) (JStr [])));
          descriptionFragment = js_or (description parsedBranch) (JStr [])
      in js_join ''_''
           (filter (\<lambda>fragment. if isEmpty fragment then False else True)
              [versionFragment, featureFragment, ticketNumberFragment, descriptionFragment]))"

definition isMasterBranch :: "descriptor \<Rightarrow> jsval" where
  "isMasterBranch parsedBranch =
     js_and (js_and (js_and (JBool (version parsedBranch = JStr ''master''))
                            (js_not (feature parsedBranch)))
                    (js_not (ticketNumber parsedBranch)))
            (js_not (description parsedBranch))"

definition isVersionBranch :: "descriptor \<Rightarrow> jsval" where
  "isVersionBranch parsedBranch =
     js_and (js_and (js_and (version parsedBranch)
                            (js_not (feature parsedBranch)))
                    (js_not (ticketNumber parsedBranch)))
            (js_not (description parsedBranch))"

definition isFeatureBranch :: "descriptor \<Rightarrow> jsval" where
  "isFeatureBranch parsedBranch =
     js_and (js_and (js_and (version parsedBranch)
                            (feature parsedBranch))
                    (js_not (ticketNumber parsedBranch)))
            (js_not (description parsedBranch))"

definition isDevBranch :: "descriptor \<Rightarrow> jsval" where
  "isDevBranch parsedBranch = js_and (version parsedBranch) (description parsedBranch)"

section \<open>The burgeon command: creating branches\<close>

record arguments =
  arg_version :: jsval  \<comment> \<open>\<^verbatim>\<open>arguments['version']\<close>\<close>
  arg_feature :: jsval  \<comment> \<open>\<^verbatim>\<open>arguments['feature']\<close>\<close>
  arg_dev :: jsval  \<comment> \<open>\<^verbatim>\<open>arguments['dev']\<close>\<close>
  arg_ticket_number :: jsval  \<comment> \<open>\<^verbatim>\<open>arguments['ticket-number']\<close>\<close>
  arg_buildable :: jsval  \<comment> \<open>\<^verbatim>\<open>arguments['buildable']\<close>\<close>

record gutOptions =
  username :: jsval

text \<open>
  \<^verbatim>\<open>JSON.stringify\<close> is a parameter of \<open>createBranch\<close>: no property below depends on
  how the descriptor is written into the branch's description. \<open>createBranch\<close> returns
  the descriptor as it stands after the two assignments, the object handed to
  \<^verbatim>\<open>JSON.stringify\<close>.
\<close>

definition createBranch ::
  "shell \<Rightarrow> (descriptor \<Rightarrow> string) \<Rightarrow> descriptor \<Rightarrow> gutOptions \<Rightarrow> descriptor run" where
  "createBranch sh stringify newParsedBranch gutOptions =
     (case getCurrentBranch sh of
        (c0, Inl e) \<Rightarrow> (c0, Inl e)
      | (c0, Inr current) \<Rightarrow>
          (let branch = newParsedBranch\<lparr>author := username gutOptions, baseBranch := current\<rparr>;
               newBranchName = buildBranchName branch
           in case execute sh (''git checkout -b '' @ newBranchName) of
                (c1, Inl e) \<Rightarrow> (c0 @ c1, Inl e)
              | (c1, Inr out1) \<Rightarrow>
                  (case execute sh (''git config branch.'' @ newBranchName @ ''.description ''
                                     @ [CHR 0x27] @ stringify branch @ [CHR 0x27]) of
                     (c2, Inl e) \<Rightarrow> (c0 @ c1 @ c2, Inl e)
                   | (c2, Inr out2) \<Rightarrow> (c0 @ c1 @ c2, Inr branch))))"

definition createVersionBranch ::
  "shell \<Rightarrow> (descriptor \<Rightarrow> string) \<Rightarrow> descriptor \<Rightarrow> arguments \<Rightarrow> gutOptions \<Rightarrow> descriptor run" where
  "createVersionBranch sh stringify parsedBranch args gutOptions =
     (let newVersion = arg_version args
      in if truthy (js_not (isMasterBranch parsedBranch))
         then ([], Inl (Error (red ''It is only allowed to create version branches from master!'')))
         else createBranch sh stringify (parsedBranch\<lparr>version := newVersion\<rparr>) gutOptions)"

definition createFeatureBranch ::
  "shell \<Rightarrow> (descriptor \<Rightarrow> string) \<Rightarrow> descriptor \<Rightarrow> arguments \<Rightarrow> gutOptions \<Rightarrow> descriptor run" where
  "createFeatureBranch sh stringify parsedBranch args gutOptions =
     (let newFeature = arg_feature args;
          isBuildable = arg_buildable args
      in if truthy (js_and (js_not (isMasterBranch parsedBranch))
                           (js_not (isVersionBranch parsedBranch)))
         then ([], Inl (Error (red
                 ''It is only allowed to create feature branches from version branches or master!'')))
         else createBranch sh stringify
                (parsedBranch\<lparr>feature := newFeature, isBuildable := isBuildable\<rparr>) gutOptions)"

definition createDevBranch ::
  "shell \<Rightarrow> (descriptor \<Rightarrow> string) \<Rightarrow> descriptor \<Rightarrow> arguments \<Rightarrow> gutOptions \<Rightarrow> descriptor run" where
  "createDevBranch sh stringify parsedBranch args gutOptions =
     (let newDescription = arg_dev args;
          newTicketNumber = js_or (arg_ticket_number args) (JStr [])
      in if truthy (js_and (js_not (isVersionBranch parsedBranch))
                           (js_not (isFeatureBranch parsedBranch)))
         then ([], Inl (Error (red
                 ''It is only allowed to create dev branches from version or feature branches!'')))
         else createBranch sh stringify
                (parsedBranch\<lparr>ticketNumber := newTicketNumber, description := newDescription\<rparr>)
                gutOptions)"

definition semver_class :: atom where
  \<comment> \<open>\<^verbatim>\<open>[0.9]\<close>: the three characters 0, dot and 9\<close>
  "semver_class = Class ''0.9''"

definition semver_re :: regex where
  \<comment> \<open>\<^verbatim>\<open>/[0.9]+\.[0.9]+\.[0.9]+(\.[0.9]+)?/\<close>\<close>
  "semver_re =
     \<lparr>bol = False,
      body = Seq (Plus semver_class) (Seq (Atom (Lit (CHR ''.''))) (Seq (Plus semver_class)
               (Seq (Atom (Lit (CHR ''.''))) (Seq (Plus semver_class)
                  (Opt (Seq (Atom (Lit (CHR ''.''))) (Plus semver_class))))))),
      eol = False\<rparr>"

definition coerce_version :: "string \<Rightarrow> error + string" where
  \<comment> \<open>the \<^verbatim>\<open>coerce\<close> function of the \<^verbatim>\<open>version\<close> option in \<^verbatim>\<open>burgeon\<close>\<close>
  "coerce_version argument =
     (if regex_test semver_re argument then Inr argument
      else Inl (Error (red ''Argument version must follow semver!'')))"

section \<open>Vocabulary of the properties\<close>

fun adjacent_underscores :: "string \<Rightarrow> bool" where
  \<comment> \<open>two \<^verbatim>\<open>_\<close> characters stand side by side somewhere in the string\<close>
  "adjacent_underscores (a # b # cs) =
     (if a = CHR ''_'' \<and> b = CHR ''_'' then True else adjacent_underscores (b # cs))"
| "adjacent_underscores s = False"

fun occurs :: "string \<Rightarrow> string \<Rightarrow> bool" where
  \<comment> \<open>\<open>pat\<close> stands somewhere in \<open>s\<close>\<close>
  "occurs [] pat = (pat = [])"
| "occurs (c # cs) pat = (if startsWith (c # cs) pat then True else occurs cs pat)"

definition endsWith :: "string \<Rightarrow> string \<Rightarrow> bool" where
  \<comment> \<open>\<^verbatim>\<open>s.endsWith(p)\<close>\<close>
  "endsWith s p = (length p \<le> length s \<and> drop (length s - length p) s = p)"

definition clean :: "string \<Rightarrow> bool" where
  \<comment> \<open>a non-empty name with no \<^verbatim>\<open>_\<close> at either end and no two of them side by side\<close>
  "clean s =
     (s \<noteq> [] \<and> hd s \<noteq> CHR ''_'' \<and> last s \<noteq> CHR ''_'' \<and> \<not> adjacent_underscores s)"

definition fragment_ok :: "jsval \<Rightarrow> bool" where
  \<comment> \<open>a fragment that is a non-empty string without \<^verbatim>\<open>_\<close>\<close>
  "fragment_ok v = (case v of JStr s \<Rightarrow> s \<noteq> [] \<and> CHR ''_'' \<notin> set s | _ \<Rightarrow> False)"

text \<open>Four shells for the examples: a repository whose current branch is master, one
  whose current branch is the version branch 0.0.0, one that has no branch yet
  (\<^verbatim>\<open>git branch\<close> prints nothing), and a directory where git fails.\<close>

definition git_on_master :: shell where
  "git_on_master command = Inr (''* master'' @ [CHR 0x0A])"

definition git_on_version :: shell where
  "git_on_version command = Inr (''* 0.0.0'' @ [CHR 0x0A] @ ''  master'' @ [CHR 0x0A])"

definition git_no_branch :: shell where
  "git_no_branch command = Inr []"

definition git_failing :: shell where
  "git_failing command = Inl (ExecError ''fatal: not a git repository'')"

section \<open>Basic facts\<close>

lemmas js_defs = js_and_def js_or_def js_not_def Let_def

lemmas regex_defs = regex_test_def match_here_def numeric_re_def digit_class_def
  semver_re_def semver_class_def

lemmas codec_defs = parseBranchName_def split_name_def parseFragments_def buildBranchName_def
  BUILDABLE_BRANCH_TAG_def startsWith_def isMasterBranch_def isVersionBranch_def
  isFeatureBranch_def isDevBranch_def

lemmas burgeon_defs = createBranch_def createVersionBranch_def createFeatureBranch_def
  createDevBranch_def getCurrentBranch_def execute_def coerce_version_def

lemmas shell_defs = git_on_master_def git_on_version_def git_no_branch_def git_failing_def

subsection \<open>Truthiness\<close>

lemma truthy_js_and [simp]: "truthy (js_and a b) \<longleftrightarrow> truthy a \<and> truthy b"
  by (simp add: js_and_def)

lemma truthy_js_not [simp]: "truthy (js_not a) \<longleftrightarrow> \<not> truthy a"
  by (simp add: js_not_def)

subsection \<open>Splitting\<close>

lemma js_split_nonempty [simp]: "js_split sep s \<noteq> []"
  by (induction s) (auto split: list.splits)

lemma js_split_no_sep: "sep \<notin> set s \<Longrightarrow> js_split sep s = [s]"
  by (induction s) auto

lemma js_split_append: "js_split sep (a @ sep # b) = js_split sep a @ js_split sep b"
proof (induction a)
  case Nil
  show ?case by simp
next
  case (Cons c a)
  obtain f fs where fs: "js_split sep a = f # fs"
    by (cases "js_split sep a") auto
  show ?case using Cons fs by simp
qed

lemma js_split_head:
  "s \<noteq> [] \<Longrightarrow> hd s \<noteq> sep \<Longrightarrow> \<exists>f fs. js_split sep s = f # fs \<and> f \<noteq> []"
  by (cases s) (auto split: list.splits)

lemma js_split_single: "js_split sep s = [f] \<Longrightarrow> f = s"
proof (induction s arbitrary: f)
  case Nil
  then show ?case by simp
next
  case (Cons c s)
  obtain g gs where g: "js_split sep s = g # gs"
    by (cases "js_split sep s") auto
  with Cons show ?case by (auto split: if_splits)
qed

lemma js_split_last_empty:
  "last (js_split sep s) = [] \<longleftrightarrow> s = [] \<or> last s = sep"
proof (induction s)
  case Nil
  show ?case by simp
next
  case (Cons c s)
  obtain f fs where fs: "js_split sep s = f # fs"
    by (cases "js_split sep s") auto
  show ?case
  proof (cases "fs = []")
    case True
    with fs have "f = s" by (simp add: js_split_single)
    with True fs Cons.IH show ?thesis by auto
  next
    case False
    with fs Cons.IH show ?thesis by (cases s) auto
  qed
qed

lemma lodash_last_eq: "xs \<noteq> [] \<Longrightarrow> lodash_last xs = JStr (last xs)"
  by (cases xs) simp_all

lemma index_0_hd: "xs \<noteq> [] \<Longrightarrow> index xs 0 = JStr (hd xs)"
  by (cases xs) simp_all

subsection \<open>The purely numeric fragments\<close>

lemma plus_rest_empty: "[] \<in> set (plus_rest a s) \<longleftrightarrow> s \<noteq> [] \<and> list_all (accepts a) s"
  by (induction s) auto

lemma numeric_iff: "regex_test numeric_re s \<longleftrightarrow> s \<noteq> [] \<and> set s \<subseteq> set ''0123456789''"
  unfolding regex_test_def numeric_re_def match_here_def digit_class_def
  by (auto simp add: plus_rest_empty list_all_iff simp del: set_simps)

subsection \<open>Decoding a name that is given\<close>

lemma parse_truthy_name:
  "name \<noteq> [] \<Longrightarrow>
   parseBranchName sh (JStr name) = ([], Inr (parseFragments (js_split (CHR ''_'') name)))"
  by (simp add: parseBranchName_def split_name_def)

lemma description_last:
  "1 < length frs \<Longrightarrow> description (parseFragments frs) = JStr (last frs)"
  by (cases frs) (simp_all add: parseFragments_def Let_def)

lemma version_first: "version (parseFragments frs) = index frs 0"
  by (simp add: parseFragments_def Let_def)

subsection \<open>Names without stray separators\<close>

lemma no_adjacent: "CHR ''_'' \<notin> set s \<Longrightarrow> \<not> adjacent_underscores s"
  by (induction s rule: adjacent_underscores.induct) auto

lemma adjacent_append:
  "a \<noteq> [] \<Longrightarrow> CHR ''_'' \<notin> set a \<Longrightarrow> r \<noteq> [] \<Longrightarrow> hd r \<noteq> CHR ''_'' \<Longrightarrow>
   adjacent_underscores (a @ CHR ''_'' # r) = adjacent_underscores r"
proof (induction a)
  case Nil
  then show ?case by simp
next
  case (Cons x a)
  show ?case
  proof (cases a)
    case Nil
    with Cons.prems show ?thesis by (cases r) auto
  next
    case (Cons y a')
    with Cons.IH Cons.prems show ?thesis by auto
  qed
qed

lemma clean_fragment: "s \<noteq> [] \<Longrightarrow> CHR ''_'' \<notin> set s \<Longrightarrow> clean s"
  unfolding clean_def using no_adjacent hd_in_set last_in_set by metis

lemma clean_append:
  assumes "a \<noteq> []" "CHR ''_'' \<notin> set a" "clean r"
  shows "clean (a @ CHR ''_'' # r)"
proof -
  have "hd (a @ CHR ''_'' # r) \<noteq> CHR ''_''"
    using assms(1,2) by (cases a) auto
  moreover have "last (a @ CHR ''_'' # r) \<noteq> CHR ''_''"
    using assms(3) by (simp add: clean_def)
  moreover have "\<not> adjacent_underscores (a @ CHR ''_'' # r)"
    using assms by (simp add: adjacent_append clean_def)
  ultimately show ?thesis by (simp add: clean_def)
qed

lemma join_clean: "list_all fragment_ok (x # vs) \<Longrightarrow> clean (js_join ''_'' (x # vs))"
proof (induction vs arbitrary: x)
  case Nil
  then show ?case
    by (cases x) (simp_all add: fragment_ok_def clean_fragment)
next
  case (Cons y vs)
  from Cons.prems obtain s where x: "x = JStr s" "s \<noteq> []" "CHR ''_'' \<notin> set s"
    by (cases x) (simp_all add: fragment_ok_def)
  have "clean (js_join ''_'' (y # vs))"
    using Cons.IH Cons.prems by simp
  then show ?case
    using x by (simp add: clean_append)
qed

lemma fragment_ok_feature:
  assumes "CHR ''_'' \<notin> set (to_string x)"
    and "\<not> isEmpty (JStr (tag @ to_string (js_or x (JStr []))))"
    and "CHR ''_'' \<notin> set tag"
  shows "fragment_ok (JStr (tag @ to_string (js_or x (JStr []))))"
  using assms by (auto simp: fragment_ok_def js_or_def)

lemma fragment_ok_description:
  assumes "CHR ''_'' \<notin> set (to_string x)" and "\<not> isEmpty (js_or x (JStr []))"
  shows "fragment_ok (js_or x (JStr []))"
  using assms by (cases x) (auto simp: fragment_ok_def js_or_def split: if_splits)

lemma endsWith_last: "endsWith s [c] \<longleftrightarrow> s \<noteq> [] \<and> last s = c"
  by (cases s rule: rev_cases) (auto simp: endsWith_def)

lemma startsWith_hd: "startsWith s [c] \<longleftrightarrow> s \<noteq> [] \<and> hd s = c"
  by (cases s) (auto simp: startsWith_def)

lemma build_clean:
  assumes "version d = JStr v" and "v \<noteq> []" and "CHR ''_'' \<notin> set v"
    and "CHR ''_'' \<notin> set (to_string (feature d))"
    and "CHR ''_'' \<notin> set (to_string (ticketNumber d))"
    and "CHR ''_'' \<notin> set (to_string (description d))"
  shows "clean (buildBranchName d)"
proof -
  let ?tag = "if truthy (isBuildable d) then BUILDABLE_BRANCH_TAG else []"
  let ?f = "JStr (?tag @ to_string (js_or (feature d) (JStr [])))"
  let ?t = "JStr ([] @ to_string (js_or (ticketNumber d) (JStr [])))"
  let ?d = "js_or (description d) (JStr [])"
  let ?keep = "\<lambda>fragment. if isEmpty fragment then False else True"
  have tag: "CHR ''_'' \<notin> set ?tag"
    by (simp add: BUILDABLE_BRANCH_TAG_def)
  have f: "\<not> isEmpty ?f \<Longrightarrow> fragment_ok ?f"
    using fragment_ok_feature [OF assms(4) _ tag] by blast
  have t: "\<not> isEmpty ?t \<Longrightarrow> fragment_ok ?t"
    using fragment_ok_feature [OF assms(5), of "[]"] by simp
  have d: "\<not> isEmpty ?d \<Longrightarrow> fragment_ok ?d"
    using fragment_ok_description [OF assms(6)] by blast
  have rest: "list_all fragment_ok (filter ?keep [?f, ?t, ?d])"
    using f t d by simp
  have v: "fragment_ok (JStr v)"
    using assms(2,3) by (simp add: fragment_ok_def)
  have "buildBranchName d = js_join ''_'' (JStr v # filter ?keep [?f, ?t, ?d])"
    using assms(1,2) by (simp add: buildBranchName_def Let_def)
  moreover have "clean (js_join ''_'' (JStr v # filter ?keep [?f, ?t, ?d]))"
    using v rest by (intro join_clean) simp
  ultimately show ?thesis by simp
qed

subsection \<open>Encoding a feature branch\<close>

lemma build_feature_state:
  assumes "version d = JStr v" "v \<noteq> []" "feature d = JStr f" "f \<noteq> []"
    "\<not> truthy (ticketNumber d)" "\<not> truthy (description d)"
  shows "buildBranchName d
         = v @ CHR ''_'' # (if truthy (isBuildable d) then ''build#'' else []) @ f"
  using assms by (simp add: buildBranchName_def js_defs BUILDABLE_BRANCH_TAG_def)

subsection \<open>What createBranch leaves alone\<close>

lemma createBranch_fields:
  "snd (createBranch sh stringify b opts) = Inr r \<Longrightarrow>
   version r = version b \<and> feature r = feature b \<and> isBuildable r = isBuildable b
   \<and> ticketNumber r = ticketNumber b \<and> description r = description b"
  by (auto simp: createBranch_def Let_def split: prod.splits sum.splits)

subsection \<open>Replacing the tag\<close>

lemma js_replace_absent: "\<not> occurs s pat \<Longrightarrow> js_replace s pat rep = s"
  by (induction s) (auto split: if_splits)

lemma not_occurs_not_prefix: "\<not> occurs s pat \<Longrightarrow> \<not> startsWith s pat"
  by (cases s) (auto simp: startsWith_def split: if_splits)

lemma js_replace_tag: "js_replace (''build#'' @ f) ''build#'' [] = f"
  by (simp add: startsWith_def)

lemma tagged_not_numeric: "\<not> regex_test numeric_re (''build#'' @ f)"
  by (simp add: numeric_iff)

lemma js_split_cons: "sep \<notin> set a \<Longrightarrow> js_split sep (a @ sep # b) = a # js_split sep b"
  by (simp add: js_split_append js_split_no_sep)

subsection \<open>The four predicates and the guards of the three creations\<close>

lemma master_is_version: "truthy (isMasterBranch d) \<Longrightarrow> truthy (isVersionBranch d)"
  by (auto simp: isMasterBranch_def isVersionBranch_def)

lemma at_most_one_kind:
  "\<not> (truthy (isVersionBranch d) \<and> truthy (isFeatureBranch d))
   \<and> \<not> (truthy (isVersionBranch d) \<and> truthy (isDevBranch d))
   \<and> \<not> (truthy (isFeatureBranch d) \<and> truthy (isDevBranch d))"
  by (auto simp: isVersionBranch_def isFeatureBranch_def isDevBranch_def)

lemma some_kind_holds:
  assumes "name \<noteq> []" and "hd name \<noteq> CHR ''_''" and "last name \<noteq> CHR ''_''"
    and "\<not> regex_test numeric_re (hd (js_split (CHR ''_'') name))"
  shows "\<exists>d. parseBranchName sh (JStr name) = ([], Inr d)
           \<and> (truthy (isVersionBranch d) \<or> truthy (isFeatureBranch d) \<or> truthy (isDevBranch d))"
proof -
  let ?frs = "js_split (CHR ''_'') name"
  let ?d = "parseFragments ?frs"
  obtain f fs where frs: "?frs = f # fs" "f \<noteq> []"
    using js_split_head [OF assms(1,2)] by blast
  have v: "version ?d = JStr f"
    by (simp add: version_first frs)
  have "truthy (isVersionBranch ?d) \<or> truthy (isDevBranch ?d)"
  proof (cases fs)
    case Nil
    then show ?thesis
      using frs assms(4) by (simp add: isVersionBranch_def parseFragments_def Let_def)
  next
    case (Cons g gs)
    have ne: "last ?frs \<noteq> []"
      using assms(1,3) by (simp add: js_split_last_empty)
    have "1 < length ?frs"
      by (simp add: frs Cons)
    then have d: "description ?d = JStr (last ?frs)"
      by (rule description_last)
    have "truthy (isDevBranch ?d)"
      using ne frs(2) by (simp add: isDevBranch_def v d)
    then show ?thesis ..
  qed
  then show ?thesis
    using parse_truthy_name [OF assms(1), of sh] by blast
qed

lemma version_guard:
  "createVersionBranch sh stringify d args opts =
     (if truthy (isMasterBranch d)
      then createBranch sh stringify (d\<lparr>version := arg_version args\<rparr>) opts
      else ([], Inl (Error (red ''It is only allowed to create version branches from master!''))))"
  by (simp add: createVersionBranch_def)

lemma feature_guard:
  "createFeatureBranch sh stringify d args opts =
     (if truthy (isVersionBranch d)
      then createBranch sh stringify
             (d\<lparr>feature := arg_feature args, isBuildable := arg_buildable args\<rparr>) opts
      else ([], Inl (Error (red
             ''It is only allowed to create feature branches from version branches or master!''))))"
  using master_is_version [of d] by (auto simp: createFeatureBranch_def)

lemma dev_guard:
  "createDevBranch sh stringify d args opts =
     (if truthy (isVersionBranch d) \<or> truthy (isFeatureBranch d)
      then createBranch sh stringify
             (d\<lparr>ticketNumber := js_or (arg_ticket_number args) (JStr []),
                description := arg_dev args\<rparr>) opts
      else ([], Inl (Error (red
             ''It is only allowed to create dev branches from version or feature branches!''))))"
  by (auto simp: createDevBranch_def)

lemma dev_branch_refused_on_feature_branch:
  "buildBranchName \<lparr>version = JStr ''1.2.3'', feature = JStr ''login'', ticketNumber = JStr [],
       description = JStr [], isBuildable = JBool False, author = JUndef, baseBranch = JUndef\<rparr>
     = ''1.2.3_login''
   \<and> parseBranchName sh (JStr ''1.2.3_login'')
     = ([], Inr \<lparr>version = JStr ''1.2.3'', feature = JStr ''login'', ticketNumber = JUndef,
                 description = JStr ''login'', isBuildable = JBool False, author = JUndef,
                 baseBranch = JUndef\<rparr>)
   \<and> createDevBranch sh stringify
        \<lparr>version = JStr ''1.2.3'', feature = JStr ''login'', ticketNumber = JUndef,
         description = JStr ''login'', isBuildable = JBool False, author = JUndef,
         baseBranch = JUndef\<rparr> args opts
     = ([], Inl (Error (red
          ''It is only allowed to create dev branches from version or feature branches!'')))"
  by (simp add: codec_defs js_defs regex_defs createDevBranch_def)

section \<open>The claims\<close>

subsection \<open>C1: decoding an encoded descriptor\<close>

text \<open>
  Claim C1, as amended. Let \<open>d\<close> be a descriptor whose five encoded fields are strings and
  a boolean and which satisfies the invariants (a non-empty version, a feature when it is
  buildable, a description when it has a ticket number). Let moreover version, feature and
  description hold no \<^verbatim>\<open>_\<close>; let the version not be purely numeric, the ticket number be
  empty or purely numeric, and the description not be purely numeric when there is no
  ticket number; let the feature neither be purely numeric nor contain \<^verbatim>\<open>build#\<close> unless
  \<open>d\<close> is buildable; and let \<open>d\<close> be a version branch or a dev branch that has a feature or a ticket number (a
  description whenever there is a feature, a ticket number whenever there is a description
  and no feature). Then \<open>parseBranchName (buildBranchName d)\<close> gives back version, feature,
  isBuildable and description as they are in \<open>d\<close>, and the ticket number as it is in \<open>d\<close>
  when it is not empty, as \<^verbatim>\<open>undefined\<close> when it is.
\<close>

theorem C1_roundtrip:
  assumes fields: "version d = JStr v" "feature d = JStr f" "ticketNumber d = JStr t"
      "description d = JStr e" "isBuildable d = JBool b"
    and inv: "v \<noteq> []" "b \<longrightarrow> f \<noteq> []" "t \<noteq> [] \<longrightarrow> e \<noteq> []"
    and sep: "CHR ''_'' \<notin> set v" "CHR ''_'' \<notin> set f" "CHR ''_'' \<notin> set e"
    and num: "\<not> regex_test numeric_re v" "b \<or> \<not> regex_test numeric_re f"
      "t = [] \<or> regex_test numeric_re t" "t = [] \<longrightarrow> \<not> regex_test numeric_re e"
    and tag: "b \<or> \<not> occurs f ''build#''"
    and dev: "f \<noteq> [] \<longrightarrow> e \<noteq> []" "e \<noteq> [] \<and> f = [] \<longrightarrow> t \<noteq> []"
  shows "\<exists>d'. parseBranchName sh (JStr (buildBranchName d)) = ([], Inr d')
           \<and> version d' = JStr v \<and> feature d' = JStr f \<and> isBuildable d' = JBool b
           \<and> description d' = JStr e
           \<and> ticketNumber d' = (if t = [] then JUndef else JStr t)"
proof -
  define ff where "ff = (if b then ''build#'' else []) @ f"
  have t_us: "CHR ''_'' \<notin> set t"
    using num(3) by (auto simp: numeric_iff)
  have ff_us: "CHR ''_'' \<notin> set ff"
    using sep(2) by (simp add: ff_def)
  have ff_num: "f \<noteq> [] \<Longrightarrow> \<not> regex_test numeric_re ff"
    using num(2) tagged_not_numeric by (auto simp: ff_def)
  have ff_tag: "startsWith ff ''build#'' = b"
    using tag not_occurs_not_prefix [of f "''build#''"] by (auto simp: ff_def startsWith_def)
  have ff_feature: "js_replace ff ''build#'' [] = f"
    using tag js_replace_tag [of f] js_replace_absent [of f "''build#''" "[]"]
    by (auto simp: ff_def)
  have build: "buildBranchName d
      = js_join ''_'' (filter (\<lambda>fragment. if isEmpty fragment then False else True)
          [JStr v, JStr ff, JStr t, JStr e])"
    using fields by (simp add: buildBranchName_def js_defs BUILDABLE_BRANCH_TAG_def ff_def)
  have ne: "buildBranchName d \<noteq> []"
    using inv(1) by (simp add: build)
  let ?d' = "parseFragments (js_split (CHR ''_'') (buildBranchName d))"
  have p: "parseBranchName sh (JStr (buildBranchName d)) = ([], Inr ?d')"
    using ne by (rule parse_truthy_name)
  consider (version) "f = []" "e = []" | (ticket) "f = []" "e \<noteq> []"
    | (feature) "f \<noteq> []" "t = []" | (both) "f \<noteq> []" "t \<noteq> []"
    by blast
  then have "version ?d' = JStr v \<and> feature ?d' = JStr f \<and> isBuildable ?d' = JBool b
           \<and> description ?d' = JStr e
           \<and> ticketNumber ?d' = (if t = [] then JUndef else JStr t)"
  proof cases
    case version
    then have t: "t = []" and b: "\<not> b" and ff: "ff = []"
      using inv by (auto simp: ff_def)
    have "js_split (CHR ''_'') (buildBranchName d) = [v]"
      using inv(1) sep(1) version t ff by (simp add: build js_split_no_sep)
    then show ?thesis
      using version t b num(1) by (simp add: parseFragments_def Let_def startsWith_def)
  next
    case ticket
    then have t: "t \<noteq> []" "regex_test numeric_re t" and b: "\<not> b" and ff: "ff = []"
      using inv dev num(3) by (auto simp: ff_def)
    have "js_split (CHR ''_'') (buildBranchName d) = [v, t, e]"
      using inv(1) sep t_us ticket t ff by (simp add: build js_split_cons js_split_no_sep)
    then show ?thesis
      using ticket t b num(1) by (simp add: parseFragments_def Let_def startsWith_def)
  next
    case feature
    then have e: "e \<noteq> []" "\<not> regex_test numeric_re e" and ff: "ff \<noteq> []"
      using dev num(4) by (auto simp: ff_def)
    have "js_split (CHR ''_'') (buildBranchName d) = [v, ff, e]"
      using inv(1) sep ff_us feature e ff by (simp add: build js_split_cons js_split_no_sep)
    then show ?thesis
      using feature e ff num(1) ff_num ff_tag ff_feature
      by (simp add: parseFragments_def Let_def BUILDABLE_BRANCH_TAG_def)
  next
    case both
    then have e: "e \<noteq> []" and ff: "ff \<noteq> []" and t: "regex_test numeric_re t"
      using dev num(3) by (auto simp: ff_def)
    have "js_split (CHR ''_'') (buildBranchName d) = [v, ff, t, e]"
      using inv(1) sep ff_us t_us both e ff by (simp add: build js_split_cons js_split_no_sep)
    then show ?thesis
      using both e ff t num(1) ff_num ff_tag ff_feature
      by (simp add: parseFragments_def Let_def BUILDABLE_BRANCH_TAG_def)
  qed
  with p show ?thesis by blast
qed

text \<open>The amended claim at the buildable dev branch \<^verbatim>\<open>1.2.3_build#login_42_fix-bug\<close>.\<close>

theorem C1_roundtrip_witness:
  "\<exists>d'. parseBranchName git_failing
       (JStr (buildBranchName \<lparr>version = JStr ''1.2.3'', feature = JStr ''login'',
          ticketNumber = JStr ''42'', description = JStr ''fix-bug'', isBuildable = JBool True,
          author = JUndef, baseBranch = JUndef\<rparr>)) = ([], Inr d')
     \<and> version d' = JStr ''1.2.3'' \<and> feature d' = JStr ''login'' \<and> isBuildable d' = JBool True
     \<and> description d' = JStr ''fix-bug'' \<and> ticketNumber d' = JStr ''42''"
  using C1_roundtrip [of "\<lparr>version = JStr ''1.2.3'', feature = JStr ''login'',
          ticketNumber = JStr ''42'', description = JStr ''fix-bug'', isBuildable = JBool True,
          author = JUndef, baseBranch = JUndef\<rparr>" "''1.2.3''" "''login''" "''42''" "''fix-bug''"
          True git_failing]
  by (simp add: regex_defs)

text \<open>
  Claim C1 as it is written holds of every descriptor that satisfies the three invariants.
  The dev branch \<^verbatim>\<open>fix\<close> of the feature \<^verbatim>\<open>42\<close> of version 1.2.3, with no ticket number,
  satisfies them. Its name is \<^verbatim>\<open>1.2.3_42_fix\<close>; the guard of \<open>parseBranchName\<close> on a
  purely numeric second fragment reads \<^verbatim>\<open>42\<close> as the ticket number and leaves the feature
  empty.
\<close>

theorem C1_numeric_feature_counterexample:
  "buildBranchName \<lparr>version = JStr ''1.2.3'', feature = JStr ''42'', ticketNumber = JStr [],
       description = JStr ''fix'', isBuildable = JBool False, author = JUndef, baseBranch = JUndef\<rparr>
     = ''1.2.3_42_fix''
   \<and> parseBranchName git_failing (JStr ''1.2.3_42_fix'')
     = ([], Inr \<lparr>version = JStr ''1.2.3'', feature = JStr [], ticketNumber = JStr ''42'',
                 description = JStr ''fix'', isBuildable = JBool False, author = JUndef,
                 baseBranch = JUndef\<rparr>)
   \<and> feature \<lparr>version = JStr ''1.2.3'', feature = JStr [], ticketNumber = JStr ''42'',
                 description = JStr ''fix'', isBuildable = JBool False, author = JUndef,
                 baseBranch = JUndef\<rparr> \<noteq> JStr ''42''"
  by (simp add: codec_defs js_defs regex_defs)

subsection \<open>C2: the four predicates on a decoded name\<close>

text \<open>
  Claim C2 says that exactly one of \<open>isMasterBranch\<close>, \<open>isVersionBranch\<close>,
  \<open>isFeatureBranch\<close> and \<open>isDevBranch\<close> holds of the descriptor decoded from a well-formed
  name. \<open>isVersionBranch\<close> tests that the version is truthy where its comment asks for a
  semver check, so on the descriptor decoded from \<^verbatim>\<open>master\<close> both \<open>isMasterBranch\<close> and
  \<open>isVersionBranch\<close> return \<^verbatim>\<open>true\<close>.
\<close>

theorem C2_master_is_also_version:
  "parseBranchName sh (JStr ''master'')
     = ([], Inr \<lparr>version = JStr ''master'', feature = JStr [], ticketNumber = JUndef,
                 description = JStr [], isBuildable = JBool False, author = JUndef,
                 baseBranch = JUndef\<rparr>)
   \<and> isMasterBranch \<lparr>version = JStr ''master'', feature = JStr [], ticketNumber = JUndef,
                 description = JStr [], isBuildable = JBool False, author = JUndef,
                 baseBranch = JUndef\<rparr> = JBool True
   \<and> isVersionBranch \<lparr>version = JStr ''master'', feature = JStr [], ticketNumber = JUndef,
                 description = JStr [], isBuildable = JBool False, author = JUndef,
                 baseBranch = JUndef\<rparr> = JBool True"
  by (simp add: codec_defs js_defs regex_defs)

subsection \<open>C3: which branch may be created from which\<close>

text \<open>
  Claim C3 says that a dev branch can be created only from a version or a feature branch,
  and names the request for a dev branch on master as one that fails. On master, with
  \<^verbatim>\<open>--dev fix\<close>, \<open>createDevBranch\<close> passes its guard, because \<open>isVersionBranch\<close> holds of
  the master descriptor, and checks out \<^verbatim>\<open>master_fix\<close>.
\<close>

theorem C3_dev_branch_created_from_master:
  "createDevBranch git_on_master stringify
     \<lparr>version = JStr ''master'', feature = JStr [], ticketNumber = JUndef,
      description = JStr [], isBuildable = JBool False, author = JUndef, baseBranch = JUndef\<rparr>
     \<lparr>arg_version = JUndef, arg_feature = JUndef, arg_dev = JStr ''fix'',
      arg_ticket_number = JUndef, arg_buildable = JUndef\<rparr>
     \<lparr>username = JStr ''me''\<rparr>
   = ([''git branch 2> /dev/null'',
       ''git checkout -b master_fix'',
       ''git config branch.master_fix.description '' @ [CHR 0x27]
         @ stringify \<lparr>version = JStr ''master'', feature = JStr [], ticketNumber = JStr [],
              description = JStr ''fix'', isBuildable = JBool False, author = JStr ''me'',
              baseBranch = JStr ''master''\<rparr> @ [CHR 0x27]],
      Inr \<lparr>version = JStr ''master'', feature = JStr [], ticketNumber = JStr [],
           description = JStr ''fix'', isBuildable = JBool False, author = JStr ''me'',
           baseBranch = JStr ''master''\<rparr>)"
  by (simp add: codec_defs js_defs burgeon_defs git_on_master_def)

subsection \<open>C4: the version validator\<close>

text \<open>
  Claim C4 says that the validator of \<^verbatim>\<open>--version\<close> accepts the strings of three or four
  dot-separated numbers, \<^verbatim>\<open>2.10.0\<close> and \<^verbatim>\<open>2.10.0.1\<close> among them. Its character class is
  written \<^verbatim>\<open>[0.9]\<close>, the three characters 0, dot and 9, so it rejects both of them with
  the error that asks for semver, as it rejects \<^verbatim>\<open>2.10\<close> and \<^verbatim>\<open>v2.10.0\<close>, and it accepts
  five dots in a row.
\<close>

theorem C4_semver_versions_rejected:
  "coerce_version ''2.10.0'' = Inl (Error (red ''Argument version must follow semver!''))
   \<and> coerce_version ''2.10.0.1'' = Inl (Error (red ''Argument version must follow semver!''))
   \<and> coerce_version ''2.10'' = Inl (Error (red ''Argument version must follow semver!''))
   \<and> coerce_version ''v2.10.0'' = Inl (Error (red ''Argument version must follow semver!''))
   \<and> coerce_version ''.....'' = Inr ''.....''"
  by (simp add: coerce_version_def regex_defs)

subsection \<open>C5: a feature branch decodes as a dev branch\<close>

text \<open>
  Claim C5, as amended. Whenever a name has more than one fragment, \<open>parseBranchName\<close>
  makes its last fragment the description. So for every descriptor \<open>d\<close> in the feature
  state (a non-empty version, a non-empty feature, ticket number and description falsy)
  whose version does not begin with \<^verbatim>\<open>_\<close> and whose feature holds no \<^verbatim>\<open>_\<close>, decoding
  \<open>buildBranchName d\<close> gives a descriptor whose description is the feature fragment (the
  feature, behind \<^verbatim>\<open>build#\<close> when \<open>d\<close> is buildable), of which \<open>isDevBranch\<close> holds and
  \<open>isFeatureBranch\<close> does not.
\<close>

theorem C5_feature_branch_decodes_as_dev:
  assumes "version d = JStr v" and "v \<noteq> []" and "hd v \<noteq> CHR ''_''"
    and "feature d = JStr f" and "f \<noteq> []" and "CHR ''_'' \<notin> set f"
    and "\<not> truthy (ticketNumber d)" and "\<not> truthy (description d)"
  shows "(1 < length (js_split (CHR ''_'') name) \<longrightarrow>
            (\<exists>d'. parseBranchName sh (JStr name) = ([], Inr d')
                 \<and> description d' = JStr (last (js_split (CHR ''_'') name))))
       \<and> (\<exists>d'. parseBranchName sh (JStr (buildBranchName d)) = ([], Inr d')
                 \<and> description d' = JStr ((if truthy (isBuildable d) then ''build#'' else []) @ f)
                 \<and> truthy (isDevBranch d') \<and> \<not> truthy (isFeatureBranch d'))"
proof
  show "1 < length (js_split (CHR ''_'') name) \<longrightarrow>
            (\<exists>d'. parseBranchName sh (JStr name) = ([], Inr d')
                 \<and> description d' = JStr (last (js_split (CHR ''_'') name)))"
  proof
    assume len: "1 < length (js_split (CHR ''_'') name)"
    then have "name \<noteq> []" by auto
    then show "\<exists>d'. parseBranchName sh (JStr name) = ([], Inr d')
                 \<and> description d' = JStr (last (js_split (CHR ''_'') name))"
      using len by (simp add: parse_truthy_name description_last)
  qed
next
  define ff where "ff = (if truthy (isBuildable d) then ''build#'' else []) @ f"
  have ff: "ff \<noteq> []" "CHR ''_'' \<notin> set ff"
    using assms by (auto simp: ff_def)
  have name: "buildBranchName d = v @ CHR ''_'' # ff"
    using build_feature_state [OF assms(1,2,4,5,7,8)] by (simp add: ff_def)
  obtain v0 vs where v0: "js_split (CHR ''_'') v = v0 # vs" "v0 \<noteq> []"
    using js_split_head [OF assms(2,3)] by blast
  have frs: "js_split (CHR ''_'') (buildBranchName d) = (v0 # vs) @ [ff]"
    using ff by (simp add: name js_split_append js_split_no_sep v0)
  let ?d' = "parseFragments (js_split (CHR ''_'') (buildBranchName d))"
  have p: "parseBranchName sh (JStr (buildBranchName d)) = ([], Inr ?d')"
    by (rule parse_truthy_name) (simp add: name)
  have desc: "description ?d' = JStr ff"
    by (simp add: frs description_last)
  have vers: "version ?d' = JStr v0"
    by (simp add: frs version_first)
  have "truthy (isDevBranch ?d')"
    using ff v0 by (simp add: isDevBranch_def desc vers)
  moreover have "\<not> truthy (isFeatureBranch ?d')"
    using ff by (simp add: isFeatureBranch_def desc)
  ultimately show "\<exists>d'. parseBranchName sh (JStr (buildBranchName d)) = ([], Inr d')
                 \<and> description d' = JStr ((if truthy (isBuildable d) then ''build#'' else []) @ f)
                 \<and> truthy (isDevBranch d') \<and> \<not> truthy (isFeatureBranch d')"
    using p desc unfolding ff_def by blast
qed

text \<open>The amended claim at the buildable feature branch \<open>login\<close> of 1.2.3, and at a name
  of four fragments.\<close>

theorem C5_feature_branch_decodes_as_dev_witness:
  "(\<exists>d'. parseBranchName git_failing (JStr ''1.2.3_login_42_fix'') = ([], Inr d')
         \<and> description d' = JStr ''fix'')
   \<and> (\<exists>d'. parseBranchName git_failing
            (JStr (buildBranchName \<lparr>version = JStr ''1.2.3'', feature = JStr ''login'',
               ticketNumber = JStr [], description = JStr [], isBuildable = JBool True,
               author = JUndef, baseBranch = JUndef\<rparr>)) = ([], Inr d')
         \<and> description d' = JStr ''build#login''
         \<and> truthy (isDevBranch d') \<and> \<not> truthy (isFeatureBranch d'))"
  using C5_feature_branch_decodes_as_dev
    [of "\<lparr>version = JStr ''1.2.3'', feature = JStr ''login'',
               ticketNumber = JStr [], description = JStr [], isBuildable = JBool True,
               author = JUndef, baseBranch = JUndef\<rparr>" "''1.2.3''" "''login''"
        "''1.2.3_login_42_fix''" git_failing]
  by simp

text \<open>
  Claim C5 as it is written fails for a feature that ends in \<^verbatim>\<open>_\<close>: the descriptor with
  version \<^verbatim>\<open>v\<close> and feature \<^verbatim>\<open>a_\<close> is in the feature state, its name \<^verbatim>\<open>v_a_\<close> has an
  empty last fragment, and the decoded descriptor has an empty description: \<open>isDevBranch\<close>
  returns the empty string and \<open>isFeatureBranch\<close> returns \<^verbatim>\<open>true\<close>.
\<close>

theorem C5_trailing_underscore_counterexample:
  "parseBranchName git_failing
     (JStr (buildBranchName \<lparr>version = JStr ''v'', feature = JStr ''a_'',
        ticketNumber = JStr [], description = JStr [], isBuildable = JBool False,
        author = JUndef, baseBranch = JUndef\<rparr>))
   = ([], Inr \<lparr>version = JStr ''v'', feature = JStr ''a'', ticketNumber = JUndef,
        description = JStr [], isBuildable = JBool False, author = JUndef, baseBranch = JUndef\<rparr>)
   \<and> isDevBranch \<lparr>version = JStr ''v'', feature = JStr ''a'', ticketNumber = JUndef,
        description = JStr [], isBuildable = JBool False, author = JUndef, baseBranch = JUndef\<rparr>
       = JStr []
   \<and> isFeatureBranch \<lparr>version = JStr ''v'', feature = JStr ''a'', ticketNumber = JUndef,
        description = JStr [], isBuildable = JBool False, author = JUndef, baseBranch = JUndef\<rparr>
       = JBool True"
  by (simp add: codec_defs js_defs regex_defs)

subsection \<open>C6: the feature fragment\<close>

text \<open>
  Claim C6 says that a second fragment which is not purely numeric is the feature with a
  leading \<^verbatim>\<open>build#\<close> stripped off, and that the branch is buildable exactly when the tag
  is there. \<open>parseBranchName\<close> tests for the tag at the start of the fragment but removes
  its first occurrence wherever it stands: the name \<^verbatim>\<open>1.2.3_rebuild#2\<close>, which does not
  start its second fragment with the tag, decodes to the feature \<^verbatim>\<open>re2\<close>. The example of
  the claim, where the tag leads, decodes as the claim says.
\<close>

theorem C6_tag_removed_inside_feature:
  "parseBranchName sh (JStr ''1.2.3_rebuild#2'')
     = ([], Inr \<lparr>version = JStr ''1.2.3'', feature = JStr ''re2'', ticketNumber = JUndef,
                 description = JStr ''rebuild#2'', isBuildable = JBool False, author = JUndef,
                 baseBranch = JUndef\<rparr>)
   \<and> parseBranchName sh (JStr ''1.2.3_build#login_42_fix-bug'')
     = ([], Inr \<lparr>version = JStr ''1.2.3'', feature = JStr ''login'', ticketNumber = JStr ''42'',
                 description = JStr ''fix-bug'', isBuildable = JBool True, author = JUndef,
                 baseBranch = JUndef\<rparr>)"
  by (simp add: codec_defs js_defs regex_defs)

subsection \<open>C7: empty fragments leave no empty slot\<close>

text \<open>
  Claim C7, as amended. For every descriptor whose version is a non-empty string and whose
  version, feature, ticket number and description hold no \<^verbatim>\<open>_\<close>, the name
  \<open>buildBranchName\<close> returns has no two \<^verbatim>\<open>_\<close> side by side and neither starts nor ends
  with \<^verbatim>\<open>_\<close>; and the descriptor with version \<^verbatim>\<open>1.2.3\<close> and nothing else is encoded as
  \<^verbatim>\<open>1.2.3\<close>.
\<close>

theorem C7_no_empty_slot:
  assumes "version d = JStr v" and "v \<noteq> []" and "CHR ''_'' \<notin> set v"
    and "CHR ''_'' \<notin> set (to_string (feature d))"
    and "CHR ''_'' \<notin> set (to_string (ticketNumber d))"
    and "CHR ''_'' \<notin> set (to_string (description d))"
  shows "\<not> adjacent_underscores (buildBranchName d)
       \<and> \<not> startsWith (buildBranchName d) ''_''
       \<and> \<not> endsWith (buildBranchName d) ''_''
       \<and> buildBranchName \<lparr>version = JStr ''1.2.3'', feature = JStr [], ticketNumber = JStr [],
             description = JStr [], isBuildable = JUndef, author = JUndef, baseBranch = JUndef\<rparr>
           = ''1.2.3''"
proof -
  have "clean (buildBranchName d)"
    using assms by (rule build_clean)
  then have "\<not> adjacent_underscores (buildBranchName d)"
    and "\<not> startsWith (buildBranchName d) ''_''"
    and "\<not> endsWith (buildBranchName d) ''_''"
    by (simp_all add: clean_def endsWith_last startsWith_hd)
  moreover have "buildBranchName \<lparr>version = JStr ''1.2.3'', feature = JStr [], ticketNumber = JStr [],
             description = JStr [], isBuildable = JUndef, author = JUndef, baseBranch = JUndef\<rparr>
           = ''1.2.3''"
    by (simp add: buildBranchName_def js_defs)
  ultimately show ?thesis by blast
qed

text \<open>The amended claim at a buildable dev branch with the ticket number 42.\<close>

theorem C7_no_empty_slot_witness:
  "buildBranchName \<lparr>version = JStr ''1.2.3'', feature = JStr ''login'', ticketNumber = JNum 42,
       description = JStr ''fix-bug'', isBuildable = JBool True, author = JUndef,
       baseBranch = JUndef\<rparr> = ''1.2.3_build#login_42_fix-bug''
   \<and> \<not> adjacent_underscores ''1.2.3_build#login_42_fix-bug''
   \<and> \<not> startsWith ''1.2.3_build#login_42_fix-bug'' ''_''
   \<and> \<not> endsWith ''1.2.3_build#login_42_fix-bug'' ''_''"
proof -
  let ?d = "\<lparr>version = JStr ''1.2.3'', feature = JStr ''login'', ticketNumber = JNum 42,
       description = JStr ''fix-bug'', isBuildable = JBool True, author = JUndef,
       baseBranch = JUndef\<rparr>"
  have n: "decimal 42 = ''42''" by (simp add: decimal.simps)
  have b: "buildBranchName ?d = ''1.2.3_build#login_42_fix-bug''"
    by (simp add: buildBranchName_def js_defs BUILDABLE_BRANCH_TAG_def n)
  show ?thesis
    using C7_no_empty_slot [of ?d "''1.2.3''"] by (simp add: n b)
qed

text \<open>
  Claim C7 as it is written, for every descriptor with a non-empty version, fails when a
  field carries the separator: the version \<^verbatim>\<open>0.0.0__\<close> passes the validator of
  \<^verbatim>\<open>--version\<close>, and the descriptor that holds nothing else is encoded as \<^verbatim>\<open>0.0.0__\<close>,
  which ends with \<^verbatim>\<open>_\<close> and has two of them side by side.
\<close>

theorem C7_underscore_in_version_counterexample:
  "coerce_version ''0.0.0__'' = Inr ''0.0.0__''
   \<and> buildBranchName \<lparr>version = JStr ''0.0.0__'', feature = JStr [], ticketNumber = JStr [],
        description = JStr [], isBuildable = JBool False, author = JUndef, baseBranch = JUndef\<rparr>
      = ''0.0.0__''
   \<and> adjacent_underscores (buildBranchName \<lparr>version = JStr ''0.0.0__'', feature = JStr [],
        ticketNumber = JStr [], description = JStr [], isBuildable = JBool False,
        author = JUndef, baseBranch = JUndef\<rparr>)
   \<and> endsWith (buildBranchName \<lparr>version = JStr ''0.0.0__'', feature = JStr [],
        ticketNumber = JStr [], description = JStr [], isBuildable = JBool False,
        author = JUndef, baseBranch = JUndef\<rparr>) ''_''"
  by (simp add: coerce_version_def regex_defs buildBranchName_def js_defs endsWith_def)

subsection \<open>C8: the fields a name does not carry\<close>

text \<open>
  Claim C8, as amended. In the descriptor \<open>parseBranchName\<close> returns for a given name, a
  field the name does not carry has its default: with a single fragment, feature and
  description are the empty string and isBuildable is \<^verbatim>\<open>false\<close>; with a purely numeric
  second fragment, feature is the empty string and isBuildable is \<^verbatim>\<open>false\<close>; with no
  purely numeric fragment, ticketNumber is \<^verbatim>\<open>undefined\<close>. The name \<^verbatim>\<open>master\<close> decodes to
  version \<^verbatim>\<open>master\<close>, feature and description empty, ticketNumber \<^verbatim>\<open>undefined\<close> and
  isBuildable \<^verbatim>\<open>false\<close>, and \<open>isMasterBranch\<close> holds of that descriptor.
\<close>

theorem C8_defaults:
  assumes "name \<noteq> []"
  shows "(\<exists>d'. parseBranchName sh (JStr name) = ([], Inr d')
           \<and> (length (js_split (CHR ''_'') name) = 1 \<longrightarrow>
                  feature d' = JStr [] \<and> description d' = JStr [] \<and> isBuildable d' = JBool False)
           \<and> (1 < length (js_split (CHR ''_'') name)
                \<and> regex_test numeric_re (js_split (CHR ''_'') name ! 1) \<longrightarrow>
                  feature d' = JStr [] \<and> isBuildable d' = JBool False)
           \<and> (filter (regex_test numeric_re) (js_split (CHR ''_'') name) = [] \<longrightarrow>
                  ticketNumber d' = JUndef))
       \<and> parseBranchName sh (JStr ''master'')
           = ([], Inr \<lparr>version = JStr ''master'', feature = JStr [], ticketNumber = JUndef,
                description = JStr [], isBuildable = JBool False, author = JUndef,
                baseBranch = JUndef\<rparr>)
       \<and> isMasterBranch \<lparr>version = JStr ''master'', feature = JStr [], ticketNumber = JUndef,
                description = JStr [], isBuildable = JBool False, author = JUndef,
                baseBranch = JUndef\<rparr> = JBool True"
proof (intro conjI)
  let ?frs = "js_split (CHR ''_'') name"
  have "parseBranchName sh (JStr name) = ([], Inr (parseFragments ?frs))"
    using assms by (rule parse_truthy_name)
  moreover have "length ?frs = 1 \<longrightarrow>
      feature (parseFragments ?frs) = JStr [] \<and> description (parseFragments ?frs) = JStr []
      \<and> isBuildable (parseFragments ?frs) = JBool False"
    by (simp add: parseFragments_def Let_def startsWith_def)
  moreover have "1 < length ?frs \<and> regex_test numeric_re (?frs ! 1) \<longrightarrow>
      feature (parseFragments ?frs) = JStr [] \<and> isBuildable (parseFragments ?frs) = JBool False"
    by (simp add: parseFragments_def Let_def startsWith_def)
  moreover have "filter (regex_test numeric_re) ?frs = [] \<longrightarrow>
      ticketNumber (parseFragments ?frs) = JUndef"
    by (simp add: parseFragments_def Let_def)
  ultimately show "\<exists>d'. parseBranchName sh (JStr name) = ([], Inr d')
           \<and> (length ?frs = 1 \<longrightarrow>
                  feature d' = JStr [] \<and> description d' = JStr [] \<and> isBuildable d' = JBool False)
           \<and> (1 < length ?frs \<and> regex_test numeric_re (?frs ! 1) \<longrightarrow>
                  feature d' = JStr [] \<and> isBuildable d' = JBool False)
           \<and> (filter (regex_test numeric_re) ?frs = [] \<longrightarrow> ticketNumber d' = JUndef)"
    by blast
qed (simp_all add: codec_defs js_defs regex_defs)

text \<open>The amended claim at the names \<^verbatim>\<open>1.2.3\<close> (one fragment, none numeric) and
  \<^verbatim>\<open>1.2.3_42\<close> (a numeric second fragment).\<close>

theorem C8_defaults_witness:
  "(\<exists>d'. parseBranchName git_failing (JStr ''1.2.3'') = ([], Inr d')
        \<and> feature d' = JStr [] \<and> description d' = JStr [] \<and> isBuildable d' = JBool False
        \<and> ticketNumber d' = JUndef)
   \<and> (\<exists>d'. parseBranchName git_failing (JStr ''1.2.3_42'') = ([], Inr d')
        \<and> feature d' = JStr [] \<and> isBuildable d' = JBool False)"
proof -
  have a: "js_split (CHR ''_'') ''1.2.3'' = [''1.2.3'']"
    and b: "js_split (CHR ''_'') ''1.2.3_42'' = [''1.2.3'', ''42'']"
    by simp_all
  have n: "\<not> regex_test numeric_re ''1.2.3''" "regex_test numeric_re ''42''"
    by (simp_all add: regex_defs)
  show ?thesis
    using C8_defaults [of "''1.2.3''" git_failing] C8_defaults [of "''1.2.3_42''" git_failing]
    unfolding a b by (simp add: n)
qed

text \<open>
  Claim C8 as it is written gives the ticket number the empty string as its default. The
  ticket number \<open>parseBranchName\<close> returns for \<^verbatim>\<open>master\<close> is \<^verbatim>\<open>undefined\<close>, the value of
  \<^verbatim>\<open>_.first\<close> on an empty array, which is not the empty string.
\<close>

theorem C8_ticket_undefined_counterexample:
  "parseBranchName git_failing (JStr ''master'')
     = ([], Inr \<lparr>version = JStr ''master'', feature = JStr [], ticketNumber = JUndef,
                description = JStr [], isBuildable = JBool False, author = JUndef,
                baseBranch = JUndef\<rparr>)
   \<and> ticketNumber \<lparr>version = JStr ''master'', feature = JStr [], ticketNumber = JUndef,
                description = JStr [], isBuildable = JBool False, author = JUndef,
                baseBranch = JUndef\<rparr> \<noteq> JStr []"
  by (simp add: codec_defs js_defs regex_defs)

subsection \<open>C9: what each creation overwrites\<close>

text \<open>
  Claim C9. When a creation goes through, the descriptor it hands to git is the current
  one with the fields of the requested kind overwritten and the other encoded fields as
  they were: \<open>createVersionBranch\<close> sets the version from \<^verbatim>\<open>--version\<close> and keeps feature,
  isBuildable, ticketNumber and description; \<open>createFeatureBranch\<close> sets feature and
  isBuildable from \<^verbatim>\<open>--feature\<close> and \<^verbatim>\<open>--buildable\<close> and keeps version, ticketNumber and
  description; \<open>createDevBranch\<close> sets ticketNumber (the empty string when none is given)
  and description from \<^verbatim>\<open>--ticket-number\<close> and \<^verbatim>\<open>--dev\<close> and keeps version, feature and
  isBuildable.
\<close>

theorem C9_creation_frame:
  "(snd (createVersionBranch sh stringify d1 args opts) = Inr r1 \<longrightarrow>
      version r1 = arg_version args
      \<and> feature r1 = feature d1 \<and> isBuildable r1 = isBuildable d1
      \<and> ticketNumber r1 = ticketNumber d1 \<and> description r1 = description d1)
   \<and> (snd (createFeatureBranch sh stringify d2 args opts) = Inr r2 \<longrightarrow>
      feature r2 = arg_feature args \<and> isBuildable r2 = arg_buildable args
      \<and> version r2 = version d2
      \<and> ticketNumber r2 = ticketNumber d2 \<and> description r2 = description d2)
   \<and> (snd (createDevBranch sh stringify d3 args opts) = Inr r3 \<longrightarrow>
      ticketNumber r3 = js_or (arg_ticket_number args) (JStr [])
      \<and> description r3 = arg_dev args
      \<and> version r3 = version d3 \<and> feature r3 = feature d3 \<and> isBuildable r3 = isBuildable d3)"
proof (intro conjI impI)
  assume "snd (createVersionBranch sh stringify d1 args opts) = Inr r1"
  then have "snd (createBranch sh stringify (d1\<lparr>version := arg_version args\<rparr>) opts) = Inr r1"
    by (simp add: createVersionBranch_def Let_def split: if_splits)
  from createBranch_fields [OF this]
  show "version r1 = arg_version args" "feature r1 = feature d1" "isBuildable r1 = isBuildable d1"
    "ticketNumber r1 = ticketNumber d1" "description r1 = description d1"
    by simp_all
next
  assume "snd (createFeatureBranch sh stringify d2 args opts) = Inr r2"
  then have "snd (createBranch sh stringify
      (d2\<lparr>feature := arg_feature args, isBuildable := arg_buildable args\<rparr>) opts) = Inr r2"
    by (simp add: createFeatureBranch_def Let_def split: if_splits)
  from createBranch_fields [OF this]
  show "feature r2 = arg_feature args" "isBuildable r2 = arg_buildable args"
    "version r2 = version d2" "ticketNumber r2 = ticketNumber d2" "description r2 = description d2"
    by simp_all
next
  assume "snd (createDevBranch sh stringify d3 args opts) = Inr r3"
  then have "snd (createBranch sh stringify
      (d3\<lparr>ticketNumber := js_or (arg_ticket_number args) (JStr []),
          description := arg_dev args\<rparr>) opts) = Inr r3"
    by (simp add: createDevBranch_def Let_def split: if_splits)
  from createBranch_fields [OF this]
  show "ticketNumber r3 = js_or (arg_ticket_number args) (JStr [])"
    "description r3 = arg_dev args"
    "version r3 = version d3" "feature r3 = feature d3" "isBuildable r3 = isBuildable d3"
    by simp_all
qed

text \<open>
  The claim at one creation of each kind, with all five arguments present: a version
  branch 0.0.0 from master, then a feature branch and a dev branch from the version
  branch 0.0.0.
\<close>

theorem C9_creation_frame_witness:
  "snd (createVersionBranch git_on_master (\<lambda>d. ''{}'')
     \<lparr>version = JStr ''master'', feature = JStr [], ticketNumber = JUndef,
      description = JStr [], isBuildable = JBool False, author = JUndef, baseBranch = JUndef\<rparr>
     \<lparr>arg_version = JStr ''0.0.0'', arg_feature = JStr ''login'', arg_dev = JStr ''fix'',
      arg_ticket_number = JNum 42, arg_buildable = JBool True\<rparr>
     \<lparr>username = JStr ''me''\<rparr>)
   = Inr \<lparr>version = JStr ''0.0.0'', feature = JStr [], ticketNumber = JUndef,
      description = JStr [], isBuildable = JBool False, author = JStr ''me'',
      baseBranch = JStr ''master''\<rparr>
   \<and> snd (createFeatureBranch git_on_version (\<lambda>d. ''{}'')
     \<lparr>version = JStr ''0.0.0'', feature = JStr [], ticketNumber = JUndef,
      description = JStr [], isBuildable = JBool False, author = JUndef, baseBranch = JUndef\<rparr>
     \<lparr>arg_version = JStr ''0.0.0'', arg_feature = JStr ''login'', arg_dev = JStr ''fix'',
      arg_ticket_number = JNum 42, arg_buildable = JBool True\<rparr>
     \<lparr>username = JStr ''me''\<rparr>)
   = Inr \<lparr>version = JStr ''0.0.0'', feature = JStr ''login'', ticketNumber = JUndef,
      description = JStr [], isBuildable = JBool True, author = JStr ''me'',
      baseBranch = JStr ''0.0.0''\<rparr>
   \<and> snd (createDevBranch git_on_version (\<lambda>d. ''{}'')
     \<lparr>version = JStr ''0.0.0'', feature = JStr [], ticketNumber = JUndef,
      description = JStr [], isBuildable = JBool False, author = JUndef, baseBranch = JUndef\<rparr>
     \<lparr>arg_version = JStr ''0.0.0'', arg_feature = JStr ''login'', arg_dev = JStr ''fix'',
      arg_ticket_number = JNum 42, arg_buildable = JBool True\<rparr>
     \<lparr>username = JStr ''me''\<rparr>)
   = Inr \<lparr>version = JStr ''0.0.0'', feature = JStr [], ticketNumber = JNum 42,
      description = JStr ''fix'', isBuildable = JBool False, author = JStr ''me'',
      baseBranch = JStr ''0.0.0''\<rparr>"
proof -
  let ?args = "\<lparr>arg_version = JStr ''0.0.0'', arg_feature = JStr ''login'', arg_dev = JStr ''fix'',
      arg_ticket_number = JNum 42, arg_buildable = JBool True\<rparr>"
  let ?m = "\<lparr>version = JStr ''master'', feature = JStr [], ticketNumber = JUndef,
      description = JStr [], isBuildable = JBool False, author = JUndef, baseBranch = JUndef\<rparr>"
  let ?v = "\<lparr>version = JStr ''0.0.0'', feature = JStr [], ticketNumber = JUndef,
      description = JStr [], isBuildable = JBool False, author = JUndef, baseBranch = JUndef\<rparr>"
  let ?o = "\<lparr>username = JStr ''me''\<rparr>"
  let ?js = "\<lambda>d::descriptor. ''{}''"
  obtain r1 where r1: "snd (createVersionBranch git_on_master ?js ?m ?args ?o) = Inr r1"
    "author r1 = JStr ''me''" "baseBranch r1 = JStr ''master''"
    by (simp add: codec_defs js_defs burgeon_defs shell_defs)
  obtain r2 where r2: "snd (createFeatureBranch git_on_version ?js ?v ?args ?o) = Inr r2"
    "author r2 = JStr ''me''" "baseBranch r2 = JStr ''0.0.0''"
    by (simp add: codec_defs js_defs burgeon_defs shell_defs)
  obtain r3 where r3: "snd (createDevBranch git_on_version ?js ?v ?args ?o) = Inr r3"
    "author r3 = JStr ''me''" "baseBranch r3 = JStr ''0.0.0''"
    by (simp add: codec_defs js_defs burgeon_defs shell_defs decimal.simps)
  from C9_creation_frame [of git_on_master ?js ?m ?args ?o r1] r1
  have "r1 = \<lparr>version = JStr ''0.0.0'', feature = JStr [], ticketNumber = JUndef,
      description = JStr [], isBuildable = JBool False, author = JStr ''me'',
      baseBranch = JStr ''master''\<rparr>"
    by simp
  moreover from C9_creation_frame [of git_on_version ?js ?v ?args ?o _ ?v r2 ?v r3] r2 r3
  have "r2 = \<lparr>version = JStr ''0.0.0'', feature = JStr ''login'', ticketNumber = JUndef,
      description = JStr [], isBuildable = JBool True, author = JStr ''me'',
      baseBranch = JStr ''0.0.0''\<rparr>"
    and "r3 = \<lparr>version = JStr ''0.0.0'', feature = JStr [], ticketNumber = JNum 42,
      description = JStr ''fix'', isBuildable = JBool False, author = JStr ''me'',
      baseBranch = JStr ''0.0.0''\<rparr>"
    by (simp_all add: js_or_def)
  ultimately show ?thesis
    using r1(1) r2(1) r3(1) by simp
qed

subsection \<open>C10: decoding never fails on a name that is given\<close>

text \<open>
  Claim C10, as amended. For every non-empty string \<open>parseBranchName\<close> returns a
  descriptor, runs no command and sets the version to the first fragment, which always
  exists. The empty string is falsy, so for it \<open>parseBranchName\<close> decodes the name of the
  current branch instead: it returns what that name decodes to when git reports a current
  branch, fails with a type error when git reports none, and fails with git's error when
  the command fails.
\<close>

theorem C10_parse_total_on_nonempty:
  "(name \<noteq> [] \<longrightarrow>
      (\<exists>d. parseBranchName sh (JStr name) = ([], Inr d)
           \<and> version d = JStr (hd (js_split (CHR ''_'') name))))
   \<and> (getCurrentBranch sh1 = (cmds1, Inr (JStr current)) \<longrightarrow>
        parseBranchName sh1 (JStr []) = (cmds1, Inr (parseFragments (js_split (CHR ''_'') current))))
   \<and> (getCurrentBranch sh2 = (cmds2, Inr JUndef) \<longrightarrow>
        parseBranchName sh2 (JStr []) = (cmds2, Inl TypeError))
   \<and> (getCurrentBranch sh3 = (cmds3, Inl e) \<longrightarrow>
        parseBranchName sh3 (JStr []) = (cmds3, Inl e))"
proof (intro conjI impI)
  assume "name \<noteq> []"
  then have "parseBranchName sh (JStr name) = ([], Inr (parseFragments (js_split (CHR ''_'') name)))"
    by (rule parse_truthy_name)
  moreover have "version (parseFragments (js_split (CHR ''_'') name))
      = JStr (hd (js_split (CHR ''_'') name))"
    by (simp add: version_first index_0_hd)
  ultimately show "\<exists>d. parseBranchName sh (JStr name) = ([], Inr d)
           \<and> version d = JStr (hd (js_split (CHR ''_'') name))"
    by blast
qed (simp_all add: parseBranchName_def split_name_def)

text \<open>The amended claim at the name \<^verbatim>\<open>1.2.3_login\<close> and, for the empty name, on the three
  shells.\<close>

theorem C10_parse_total_on_nonempty_witness:
  "(\<exists>d. parseBranchName git_failing (JStr ''1.2.3_login'') = ([], Inr d)
        \<and> version d = JStr ''1.2.3'')
   \<and> parseBranchName git_on_master (JStr [])
       = ([''git branch 2> /dev/null''], Inr (parseFragments [''master'']))
   \<and> parseBranchName git_no_branch (JStr []) = ([''git branch 2> /dev/null''], Inl TypeError)
   \<and> parseBranchName git_failing (JStr [])
       = ([''git branch 2> /dev/null''], Inl (ExecError ''fatal: not a git repository''))"
proof -
  have 1: "getCurrentBranch git_on_master = ([''git branch 2> /dev/null''], Inr (JStr ''master''))"
    by (simp add: getCurrentBranch_def execute_def git_on_master_def startsWith_def)
  have 2: "getCurrentBranch git_no_branch = ([''git branch 2> /dev/null''], Inr JUndef)"
    by (simp add: getCurrentBranch_def execute_def git_no_branch_def startsWith_def)
  have 3: "getCurrentBranch git_failing
      = ([''git branch 2> /dev/null''], Inl (ExecError ''fatal: not a git repository''))"
    by (simp add: getCurrentBranch_def execute_def git_failing_def)
  show ?thesis
    using C10_parse_total_on_nonempty [of "''1.2.3_login''" git_failing git_on_master
        "[''git branch 2> /dev/null'']" "''master''" git_no_branch "[''git branch 2> /dev/null'']"
        git_failing "[''git branch 2> /dev/null'']" "ExecError ''fatal: not a git repository''"]
    by (simp add: 1 2 3)
qed

text \<open>
  Claim C10 as it is written includes the empty string. In a repository that has no branch
  yet, \<open>parseBranchName\<close> of the empty string calls \<^verbatim>\<open>split\<close> on \<^verbatim>\<open>undefined\<close>; where git
  fails, it fails with git's error.
\<close>

theorem C10_empty_name_counterexample:
  "parseBranchName git_no_branch (JStr []) = ([''git branch 2> /dev/null''], Inl TypeError)
   \<and> parseBranchName git_failing (JStr [])
       = ([''git branch 2> /dev/null''], Inl (ExecError ''fatal: not a git repository''))"
  by (simp add: parseBranchName_def split_name_def getCurrentBranch_def execute_def
      git_no_branch_def git_failing_def startsWith_def)

end
